theory Spec2Isabelle
  imports Main "HOL-Library.Multiset"
begin

section \<open>Exceptions, service responses and notebook cells\<close>

text \<open>
  The notebooks are sequences of cells that call a hosted platform through its SDK. A call
  either returns or raises; what the service answers is not decided by the notebook, so
  every cell below takes the outcome of each call it makes as an argument and returns the
  list of calls and prints it performed, the exception that left the cell (if any) and the
  kernel's variables afterwards.

  An SDK error carries a \<open>response\<close> dictionary, read by the handlers as
  \<^verbatim>\<open>e.response.get('Error').get('Code')\<close>. Dictionaries are association lists
  looked up with \<open>map_of\<close>; \<open>dict.get\<close> of a missing key is \<open>None\<close>.
\<close>

type_synonym error_response = "(string \<times> (string \<times> string) list) list"

datatype exn =
    ClientError error_response
  | OtherException string
  | AttributeError string
  | NameError string
  | KeyError string
  | ValueError string
  | SystemExit string

text \<open>\<open>except Exception\<close> catches everything but \<open>SystemExit\<close>, a \<open>BaseException\<close>.\<close>

fun is_Exception :: "exn \<Rightarrow> bool" where
  "is_Exception (SystemExit _) = False"
| "is_Exception _ = True"

text \<open>
  \<^verbatim>\<open>error = e.response.get('Error').get('Code')\<close>: an exception without a
  \<open>response\<close> attribute, or a response without an \<open>'Error'\<close> entry, raises
  \<open>AttributeError\<close> inside the handler; a missing \<open>'Code'\<close> gives \<open>None\<close>.
\<close>

fun error_code :: "exn \<Rightarrow> exn + string option" where
  "error_code (ClientError response) =
     (case map_of response ''Error'' of
        None \<Rightarrow> Inl (AttributeError ''get'')
      | Some err \<Rightarrow> Inr (map_of err ''Code''))"
| "error_code _ = Inl (AttributeError ''response'')"

datatype event =
    Print string
  | DescribeFeatureGroup string
  | FeatureGroupCreate string
  | FeatureGroupDescribe string
  | TimeSleep nat
  | ProcessorRun string
  | WaitForProcessingJob string
  | DownloadFile string string string
  | RunExplainability string string
  | Deploy string string

text \<open>The one kernel variable a later cell depends on; \<open>None\<close> is "name not bound".\<close>

record namespace =
  feature_group_exists :: "bool option"

record cell_result =
  events :: "event list"
  raised :: "exn option"
  globals :: namespace

definition start :: "namespace \<Rightarrow> cell_result" where
  "start ns = \<lparr>events = [], raised = None, globals = ns\<rparr>"

definition emit :: "event \<Rightarrow> cell_result \<Rightarrow> cell_result" where
  "emit ev r = r\<lparr>events := events r @ [ev]\<rparr>"

text \<open>A call to the platform: logged, and the cell is left if it raises.\<close>

definition call :: "event \<Rightarrow> exn option \<Rightarrow> cell_result \<Rightarrow> cell_result" where
  "call ev outcome r = (emit ev r)\<lparr>raised := outcome\<rparr>"

definition assign_exists :: "bool \<Rightarrow> cell_result \<Rightarrow> cell_result" where
  "assign_exists b r = r\<lparr>globals := (globals r)\<lparr>feature_group_exists := Some b\<rparr>\<rparr>"

text \<open>The next statement runs only if the previous one did not raise.\<close>

definition and_then :: "cell_result \<Rightarrow> (cell_result \<Rightarrow> cell_result) \<Rightarrow> cell_result" where
  "and_then r f = (case raised r of None \<Rightarrow> f r | Some _ \<Rightarrow> r)"

definition creations :: "event list \<Rightarrow> string list" where
  "creations evs = concat (map (\<lambda>ev. case ev of FeatureGroupCreate n \<Rightarrow> [n] | _ \<Rightarrow> []) evs)"

definition jobs_submitted :: "event list \<Rightarrow> string list" where
  "jobs_submitted evs = concat (map (\<lambda>ev. case ev of ProcessorRun j \<Rightarrow> [j] | _ \<Rightarrow> []) evs)"

definition prints :: "event list \<Rightarrow> string list" where
  "prints evs = concat (map (\<lambda>ev. case ev of Print s \<Rightarrow> [s] | _ \<Rightarrow> []) evs)"

section \<open>Feature group provisioning (notebook 02c)\<close>

text \<open>
  \<^verbatim>\<open>
  try:
      sagemaker_client.describe_feature_group(FeatureGroupName=feature_group_name, NextToken='string')
      feature_group_exists=True
      print("Feature Group {0} already exists. Using {0}".format(feature_group_name))
  except Exception as e:
      error = e.response.get('Error').get('Code')
      if error == "ResourceNotFound":
          feature_group_exists=False
          print("Creating Feature Group {}".format(feature_group_name))
          feature_group.create(...)
      if error == 'ResourceInUse':
          feature_group_exists=True
          print("Feature Group {0} already exists. Using {0}".format(feature_group_name))
  \<close>
  \<open>describe_outcome\<close> and \<open>create_outcome\<close> are what the two service calls do:
  \<open>None\<close> when the call returns, \<open>Some e\<close> when it raises \<open>e\<close>.
\<close>

definition already_exists_msg :: "string \<Rightarrow> string" where
  "already_exists_msg n = ''Feature Group '' @ n @ '' already exists. Using '' @ n"

definition provision_cell :: "string \<Rightarrow> exn option \<Rightarrow> exn option \<Rightarrow> namespace \<Rightarrow> cell_result" where
  "provision_cell feature_group_name describe_outcome create_outcome ns =
     (let r0 = emit (DescribeFeatureGroup feature_group_name) (start ns) in
      case describe_outcome of
        None \<Rightarrow> emit (Print (already_exists_msg feature_group_name)) (assign_exists True r0)
      | Some e \<Rightarrow>
          if \<not> is_Exception e then r0\<lparr>raised := Some e\<rparr>
          else (case error_code e of
                  Inl a \<Rightarrow> r0\<lparr>raised := Some a\<rparr>
                | Inr error \<Rightarrow>
                    and_then
                      (if error = Some ''ResourceNotFound''
                       then call (FeatureGroupCreate feature_group_name) create_outcome
                              (emit (Print (''Creating Feature Group '' @ feature_group_name))
                                 (assign_exists False r0))
                       else r0)
                      (\<lambda>r. if error = Some ''ResourceInUse''
                           then emit (Print (already_exists_msg feature_group_name))
                                  (assign_exists True r)
                           else r)))"

text \<open>
  \<^verbatim>\<open>
  if feature_group_exists:
      print("Feature Group {0} already exists therefore we will not run a processing job to create it again".format(feature_group_name))
  else:
      print("Creating Processing Job: {}".format(feature_group_name))
      processor.run(..., wait=False, logs=False, job_name=processing_job_name)
      job_result = sess.wait_for_processing_job(processing_job_name)
      print(job_result)
  \<close>
  Reading a name that no cell has bound raises \<open>NameError\<close>.
\<close>

definition ingestion_cell ::
    "string \<Rightarrow> string \<Rightarrow> exn option \<Rightarrow> exn + string \<Rightarrow> namespace \<Rightarrow> cell_result" where
  "ingestion_cell feature_group_name processing_job_name run_outcome wait_outcome ns =
     (case feature_group_exists ns of
        None \<Rightarrow> (start ns)\<lparr>raised := Some (NameError ''feature_group_exists'')\<rparr>
      | Some True \<Rightarrow>
          emit (Print (''Feature Group '' @ feature_group_name @
                 '' already exists therefore we will not run a processing job to create it again''))
            (start ns)
      | Some False \<Rightarrow>
          and_then
            (call (ProcessorRun processing_job_name) run_outcome
               (emit (Print (''Creating Processing Job: '' @ feature_group_name)) (start ns)))
            (\<lambda>r. case wait_outcome of
                   Inl e \<Rightarrow> call (WaitForProcessingJob processing_job_name) (Some e) r
                 | Inr job_result \<Rightarrow>
                     emit (Print job_result)
                       (call (WaitForProcessingJob processing_job_name) None r)))"


text \<open>
  \<^verbatim>\<open>
  def wait_for_feature_group_creation_complete(feature_group):
      status = feature_group.describe().get("FeatureGroupStatus")
      while status == "Creating":
          print("Waiting for Feature Group Creation")
          time.sleep(5)
          status = feature_group.describe().get("FeatureGroupStatus")
      if status != "Created":
          raise SystemExit(f"Failed to create feature group {feature_group.name}: {status}")
      print(f"FeatureGroup {feature_group.name} successfully created.")
  \<close>
  \<open>replies i\<close> is what the \<open>i\<close>-th call of \<open>describe()\<close> does: it raises, or it
  returns a dictionary whose \<open>"FeatureGroupStatus"\<close> entry is \<open>Some s\<close> or missing.
  The loop has no bound, so it is a partial function: \<open>None\<close> is "never returns".
  \<open>time.sleep(5)\<close> is recorded with its argument.
\<close>

partial_function (option) wait_loop ::
    "string \<Rightarrow> (nat \<Rightarrow> exn + string option) \<Rightarrow> nat \<Rightarrow> string option \<Rightarrow> cell_result
       \<Rightarrow> (string option \<times> cell_result) option" where
  "wait_loop name replies i status r =
     (if status = Some ''Creating'' then
        (case replies i of
           Inl e \<Rightarrow>
             Some (status,
               call (FeatureGroupDescribe name) (Some e)
                 (emit (TimeSleep 5) (emit (Print ''Waiting for Feature Group Creation'') r)))
         | Inr status' \<Rightarrow>
             wait_loop name replies (Suc i) status'
               (call (FeatureGroupDescribe name) None
                  (emit (TimeSleep 5) (emit (Print ''Waiting for Feature Group Creation'') r))))
      else Some (status, r))"

text \<open>\<open>{status}\<close> in the f-string: \<open>str(None)\<close> is \<open>'None'\<close>.\<close>

definition str_status :: "string option \<Rightarrow> string" where
  "str_status status = (case status of None \<Rightarrow> ''None'' | Some s \<Rightarrow> s)"

definition wait_for_feature_group_creation_complete ::
    "string \<Rightarrow> (nat \<Rightarrow> exn + string option) \<Rightarrow> namespace \<Rightarrow> cell_result option" where
  "wait_for_feature_group_creation_complete name replies ns =
     (case replies 0 of
        Inl e \<Rightarrow> Some (call (FeatureGroupDescribe name) (Some e) (start ns))
      | Inr status0 \<Rightarrow>
          (case wait_loop name replies 1 status0
                  (call (FeatureGroupDescribe name) None (start ns)) of
             None \<Rightarrow> None
           | Some (status, r) \<Rightarrow>
               Some (and_then r
                 (\<lambda>r. if status \<noteq> Some ''Created''
                      then r\<lparr>raised := Some (SystemExit
                             (''Failed to create feature group '' @ name @ '': '' @ str_status status))\<rparr>
                      else emit (Print (''FeatureGroup '' @ name @ '' successfully created.'')) r))))"

definition sleeps :: "event list \<Rightarrow> nat list" where
  "sleeps evs = concat (map (\<lambda>ev. case ev of TimeSleep s \<Rightarrow> [s] | _ \<Rightarrow> []) evs)"

section \<open>Deployment and explainability (notebook 04)\<close>

text \<open>
  \<^verbatim>\<open>
  endpoint_name = '{}-endpoint-notebooks'.format(model_name)
  endpoint_list = sagemaker_client.list_endpoints(
      SortBy='CreationTime', SortOrder='Descending',
      NameContains=endpoint_name, StatusEquals='InService')
  if len(endpoint_list['Endpoints']) > 0:
      print(f"Using existing endpoint: {endpoint_list['Endpoints'][0]['EndpointName']}")
  else:
      xgb_estimator.deploy(initial_instance_count=1, instance_type='ml.m4.xlarge',
                           model_name=model_name, endpoint_name=endpoint_name)
  \<close>
  The listing is the service's answer and is an argument of the cell.
\<close>

record endpoint_summary =
  EndpointName :: string
  EndpointStatus :: string

definition endpoint_name :: "string \<Rightarrow> string" where
  "endpoint_name model_name = model_name @ ''-endpoint-notebooks''"

definition deploy_cell ::
    "string \<Rightarrow> endpoint_summary list \<Rightarrow> exn option \<Rightarrow> namespace \<Rightarrow> cell_result" where
  "deploy_cell model_name Endpoints deploy_outcome ns =
     (if length Endpoints > 0
      then emit (Print (''Using existing endpoint: '' @ EndpointName (Endpoints ! 0))) (start ns)
      else call (Deploy model_name (endpoint_name model_name)) deploy_outcome (start ns))"

definition deployments :: "event list \<Rightarrow> (string \<times> string) list" where
  "deployments evs = concat (map (\<lambda>ev. case ev of Deploy m n \<Rightarrow> [(m, n)] | _ \<Rightarrow> []) evs)"

text \<open>
  \<^verbatim>\<open>
  explainability_output_path = f's3://{bucket}/{prefix}/clarify-output/explainability'
  pred_data_uri = f's3://{bucket}/{prefix}/data/pred/prediction_data.csv'
  try:
      s3_client.download_file(
          Bucket   = bucket,
          Key      = f'{prefix}/clarify-output/explainability/explanations_shap/out.csv',
          Filename = 'data/shap_output.csv')
      print('Downloaded output from previous explainability job')
  except Exception as e:
      error = e.response.get('Error').get('Code')
      if error == '404':
          print('Running explainability job')
          clarify_processor.run_explainability(data_config=explainability_data_config,
              model_config=model_config, explainability_config=shap_config)
  \<close>
  \<open>download_file bucket key\<close> is what the object store does for that bucket and key;
  the job is recorded with the input and output paths of its data configuration.
\<close>

definition explainability_output_path :: "string \<Rightarrow> string \<Rightarrow> string" where
  "explainability_output_path bucket prefix =
     ''s3://'' @ bucket @ ''/'' @ prefix @ ''/clarify-output/explainability''"

definition pred_data_uri :: "string \<Rightarrow> string \<Rightarrow> string" where
  "pred_data_uri bucket prefix =
     ''s3://'' @ bucket @ ''/'' @ prefix @ ''/data/pred/prediction_data.csv''"

definition shap_output_key :: "string \<Rightarrow> string" where
  "shap_output_key prefix = prefix @ ''/clarify-output/explainability/explanations_shap/out.csv''"

definition explainability_cell ::
    "string \<Rightarrow> string \<Rightarrow> (string \<Rightarrow> string \<Rightarrow> exn option) \<Rightarrow> exn option \<Rightarrow> namespace
       \<Rightarrow> cell_result" where
  "explainability_cell bucket prefix download_file run_outcome ns =
     (let r0 = emit (DownloadFile bucket (shap_output_key prefix) ''data/shap_output.csv'') (start ns)
      in case download_file bucket (shap_output_key prefix) of
        None \<Rightarrow> emit (Print ''Downloaded output from previous explainability job'') r0
      | Some e \<Rightarrow>
          if \<not> is_Exception e then r0\<lparr>raised := Some e\<rparr>
          else (case error_code e of
                  Inl a \<Rightarrow> r0\<lparr>raised := Some a\<rparr>
                | Inr error \<Rightarrow>
                    if error = Some ''404''
                    then call (RunExplainability (pred_data_uri bucket prefix)
                                 (explainability_output_path bucket prefix)) run_outcome
                           (emit (Print ''Running explainability job'') r0)
                    else r0))"

definition explainability_jobs :: "event list \<Rightarrow> (string \<times> string) list" where
  "explainability_jobs evs =
     concat (map (\<lambda>ev. case ev of RunExplainability i out \<Rightarrow> [(i, out)] | _ \<Rightarrow> []) evs)"


section \<open>Inference frame and ranking (notebook 04)\<close>

text \<open>
  A pandas frame is its column labels and its rows, each row holding one cell per label.
  The row index is left out: nothing below reads it. Frames are rectangular in pandas;
  the record cannot say so, and \<open>rectangular\<close> does.
\<close>

record 'v dataframe =
  columns :: "string list"
  rows :: "'v list list"

definition rectangular :: "'v dataframe \<Rightarrow> bool" where
  "rectangular df = list_all (\<lambda>r. length r = length (columns df)) (rows df)"

text \<open>
  \<^verbatim>\<open>
  record = fg_response['Record']
  df_user = pd.DataFrame(record).set_index('FeatureName')
  ... pd.DataFrame(df_user['ValueAsString']).T
  \<close>
  \<open>record\<close> is the tall list of (FeatureName, ValueAsString) pairs; the transposed frame
  has one row, labelled by the feature names. An empty list gives a frame without a
  \<open>'FeatureName'\<close> column, and \<open>set_index\<close> raises.
\<close>

definition user_frame :: "(string \<times> 'v) list \<Rightarrow> exn + 'v dataframe" where
  "user_frame record =
     (if record = [] then Inl (KeyError ''FeatureName'')
      else Inr \<lparr>columns = map fst record, rows = [map snd record]\<rparr>)"

text \<open>
  \<open>left.merge(right, how='cross')\<close>: every row of \<open>left\<close> paired with every row of
  \<open>right\<close>, left-major; a label present on both sides gets the default suffixes
  \<open>_x\<close> and \<open>_y\<close>.
\<close>

definition merge_cross :: "'v dataframe \<Rightarrow> 'v dataframe \<Rightarrow> 'v dataframe" where
  "merge_cross left right =
     \<lparr>columns =
        map (\<lambda>c. if c \<in> set (columns right) then c @ ''_x'' else c) (columns left) @
        map (\<lambda>c. if c \<in> set (columns left) then c @ ''_y'' else c) (columns right),
      rows = concat (map (\<lambda>l. map (\<lambda>r. l @ r) (rows right)) (rows left))\<rparr>"

text \<open>\<open>c.lower()\<close> on ASCII labels (the labels of this data set are ASCII).\<close>

definition lower_char :: "char \<Rightarrow> char" where
  "lower_char c =
     (let n = (of_char c :: nat) in if 65 \<le> n \<and> n \<le> 90 then char_of (n + 32) else c)"

definition lower :: "string \<Rightarrow> string" where
  "lower s = map lower_char s"

text \<open>
  \<open>df[names]\<close> with a list of labels: a label that no column carries raises
  \<open>KeyError\<close>; otherwise the result has, for each requested label in turn, every column
  carrying it (pandas returns all of them when a label is duplicated).
\<close>

definition positions :: "string \<Rightarrow> string list \<Rightarrow> nat list" where
  "positions name cols = filter (\<lambda>i. cols ! i = name) [0..<length cols]"

definition select_columns :: "'v dataframe \<Rightarrow> string list \<Rightarrow> exn + 'v dataframe" where
  "select_columns df names =
     (case filter (\<lambda>n. n \<notin> set (columns df)) names of
        missing # _ \<Rightarrow> Inl (KeyError missing)
      | [] \<Rightarrow>
          Inr \<lparr>columns = concat (map (\<lambda>n. map (\<lambda>i. columns df ! i) (positions n (columns df))) names),
               rows = map (\<lambda>r. concat (map (\<lambda>n. map (\<lambda>i. r ! i) (positions n (columns df))) names))
                        (rows df)\<rparr>)"

text \<open>
  \<^verbatim>\<open>
  data = df_tracks.merge(pd.DataFrame(df_user['ValueAsString']).T, how='cross')
  data.columns = [c.lower() for c in data.columns]
  inference_df = data[feature_names]
  \<close>
\<close>

definition inference_df ::
    "'v dataframe \<Rightarrow> (string \<times> 'v) list \<Rightarrow> string list \<Rightarrow> exn + 'v dataframe" where
  "inference_df df_tracks record feature_names =
     (case user_frame record of
        Inl e \<Rightarrow> Inl e
      | Inr df_user \<Rightarrow>
          (let data = merge_cross df_tracks df_user;
               data = data\<lparr>columns := map lower (columns data)\<rparr>
           in select_columns data feature_names))"

text \<open>The labels of \<open>data\<close> after the second line, for a non-empty record.\<close>

definition data_columns :: "'v dataframe \<Rightarrow> (string \<times> 'v) list \<Rightarrow> string list" where
  "data_columns df_tracks record =
     map lower
       (columns (merge_cross df_tracks \<lparr>columns = map fst record, rows = [map snd record]\<rparr>))"

text \<open>
  \<open>df.sort_values(by=label, ascending=False)\<close>: the label must name exactly one column.
  pandas computes the new row order with \<open>nargsort\<close>:
  \<^verbatim>\<open>
  mask = isna(items)
  idx = np.arange(len(items))
  non_nans = items[~mask]
  non_nan_idx = idx[~mask]
  nan_idx = np.nonzero(mask)[0]
  if not ascending:
      non_nans = non_nans[::-1]
      non_nan_idx = non_nan_idx[::-1]
  indexer = non_nan_idx[non_nans.argsort(kind=kind)]
  if not ascending:
      indexer = indexer[::-1]
  indexer = np.concatenate([indexer, nan_idx])      # na_position == "last"
  \<close>
  A cell is \<open>Some v\<close>, or \<open>None\<close> for a missing value (NaN). The sorting routine
  \<open>argsort\<close> is numpy's; the default kind is not stable, so the order it gives to equal
  scores is not fixed here: the routine is an argument, and \<open>argsort_ok\<close> is what numpy
  promises of it (the indices of the list, in an order that sorts it ascending).
\<close>

definition argsort_ok :: "('s::linorder list \<Rightarrow> nat list) \<Rightarrow> 's list \<Rightarrow> bool" where
  "argsort_ok argsort ks \<longleftrightarrow>
     mset (argsort ks) = mset [0..<length ks] \<and> sorted (map (\<lambda>j. ks ! j) (argsort ks))"

definition nargsort_desc :: "('s::linorder list \<Rightarrow> nat list) \<Rightarrow> 's option list \<Rightarrow> nat list" where
  "nargsort_desc argsort items =
     (let idx = [0..<length items];
          non_nans = rev (concat (map (\<lambda>x. case x of None \<Rightarrow> [] | Some v \<Rightarrow> [v]) items));
          non_nan_idx = rev (filter (\<lambda>j. items ! j \<noteq> None) idx);
          nan_idx = filter (\<lambda>j. items ! j = None) idx;
          indexer = rev (map (\<lambda>j. non_nan_idx ! j) (argsort non_nans))
      in indexer @ nan_idx)"

definition sort_values_desc ::
    "('s::linorder list \<Rightarrow> nat list) \<Rightarrow> string \<Rightarrow> 's option dataframe
       \<Rightarrow> exn + 's option dataframe" where
  "sort_values_desc argsort by df =
     (case positions by (columns df) of
        [] \<Rightarrow> Inl (KeyError by)
      | [i] \<Rightarrow>
          Inr (df\<lparr>rows := map (\<lambda>j. rows df ! j)
                              (nargsort_desc argsort (map (\<lambda>r. r ! i) (rows df)))\<rparr>)
      | _ \<Rightarrow> Inl (ValueError by))"

text \<open>\<open>df.head(n)\<close>: the first \<open>n\<close> rows; for negative \<open>n\<close>, all but the last \<open>-n\<close>.\<close>

definition head :: "int \<Rightarrow> 'v dataframe \<Rightarrow> 'v dataframe" where
  "head n df =
     df\<lparr>rows := (if 0 \<le> n then take (nat n) (rows df)
                 else take (length (rows df) - nat (- n)) (rows df))\<rparr>"

text \<open>
  \<^verbatim>\<open>
  playlist = inference_df.sort_values(by='rating', ascending=False).head(playlist_length)
  \<close>
\<close>

definition playlist ::
    "('s::linorder list \<Rightarrow> nat list) \<Rightarrow> int \<Rightarrow> 's option dataframe
       \<Rightarrow> exn + 's option dataframe" where
  "playlist argsort playlist_length df =
     (case sort_values_desc argsort ''rating'' df of
        Inl e \<Rightarrow> Inl e
      | Inr sorted_df \<Rightarrow> Inr (head playlist_length sorted_df))"

text \<open>Descending order of scores, with a missing score after every number.\<close>

fun desc_na_last :: "('s::linorder) option \<Rightarrow> 's option \<Rightarrow> bool" where
  "desc_na_last _ None = True"
| "desc_na_last None (Some _) = False"
| "desc_na_last (Some a) (Some b) = (b \<le> a)"

text \<open>
  One sorting routine that keeps numpy's promise (a stable one), to run the ranking on
  concrete frames.
\<close>

definition stable_argsort :: "('s::linorder) list \<Rightarrow> nat list" where
  "stable_argsort ks = map snd (sort_key fst (zip ks [0..<length ks]))"

section \<open>Training job configuration (GPT-J notebook)\<close>

text \<open>
  \<^verbatim>\<open>
  pipeline_parallel_degree = 16
  hyperparameters = {..., "shard_optimizer_state": 1, "optimize": "memory",
      "pipeline_parallel_degree": pipeline_parallel_degree, "ddp": ddp, "prescaled_batch": 0, ...}
  instance_count = 4
  process_per_host = 8
  mpi = {"enabled": True, "processes_per_host": process_per_host, ...}
  smdistributed = {"modelparallel": {"enabled": True, "parameters": {
      "ddp": hyperparameters["ddp"], "microbatches": 2,
      "partitions": hyperparameters["pipeline_parallel_degree"],
      "shard_optimizer_state": hyperparameters["shard_optimizer_state"] > 0,
      "prescaled_batch": hyperparameters["prescaled_batch"] > 0, ...}}}
  \<close>
\<close>

definition pipeline_parallel_degree :: int where
  "pipeline_parallel_degree = 16"

definition ddp :: bool where
  "ddp = True"

record hyperparameters =
  hp_shard_optimizer_state :: int
  hp_pipeline_parallel_degree :: int
  hp_ddp :: bool
  hp_prescaled_batch :: int

definition hyperparameters :: hyperparameters where
  "hyperparameters =
     \<lparr>hp_shard_optimizer_state = 1,
      hp_pipeline_parallel_degree = pipeline_parallel_degree,
      hp_ddp = ddp,
      hp_prescaled_batch = 0\<rparr>"

definition instance_count :: int where
  "instance_count = 4"

definition process_per_host :: int where
  "process_per_host = 8"

record modelparallel_parameters =
  mp_ddp :: bool
  microbatches :: int
  partitions :: int
  shard_optimizer_state :: bool
  prescaled_batch :: bool

definition smdistributed :: modelparallel_parameters where
  "smdistributed =
     \<lparr>mp_ddp = hp_ddp hyperparameters,
      microbatches = 2,
      partitions = hp_pipeline_parallel_degree hyperparameters,
      shard_optimizer_state = (hp_shard_optimizer_state hyperparameters > 0),
      prescaled_batch = (hp_prescaled_batch hyperparameters > 0)\<rparr>"

text \<open>
  The notebook's prose: "Total number of GPUs in the cluster will be 32", one process per
  GPU, and "(pipeline parallelism degree) x (data parallelism degree) = total number of
  GPUs". The data-parallel degree is not set anywhere: it is what the runtime is left with.
\<close>

definition total_accelerators :: int where
  "total_accelerators = instance_count * process_per_host"

definition data_parallel_degree :: int where
  "data_parallel_degree = total_accelerators div partitions smdistributed"

section \<open>Properties of the feature group notebook\<close>

lemmas cell_defs = start_def emit_def call_def assign_exists_def and_then_def

lemma error_code_Inr_is_Exception: "error_code e = Inr c \<Longrightarrow> is_Exception e"
  by (cases e) simp_all

text \<open>
  C1. Provisioning is idempotent. When \<open>describe_feature_group\<close> fails with the code
  \<open>ResourceNotFound\<close>, the cell creates the feature group (one \<open>create\<close> call) and
  records that it did not exist; when it fails with \<open>ResourceInUse\<close>, the cell records
  that the group exists and creates nothing. In every run that finds the group existing
  (the describe call returns, or fails with \<open>ResourceInUse\<close>), the provisioning cell
  performs no creation and the ingestion cell that follows submits no processing job; the
  ingestion cell skips \<open>processor.run\<close> whenever the flag is true.
\<close>

theorem provisioning_idempotent:
  "(error_code e_nf = Inr (Some ''ResourceNotFound'') \<longrightarrow>
      creations (events (provision_cell n (Some e_nf) create_outcome ns)) = [n] \<and>
      feature_group_exists (globals (provision_cell n (Some e_nf) create_outcome ns)) = Some False) \<and>
   (error_code e_iu = Inr (Some ''ResourceInUse'') \<longrightarrow>
      creations (events (provision_cell n (Some e_iu) create_outcome ns)) = [] \<and>
      raised (provision_cell n (Some e_iu) create_outcome ns) = None \<and>
      feature_group_exists (globals (provision_cell n (Some e_iu) create_outcome ns)) = Some True) \<and>
   (d = None \<or> (d = Some e_seen \<and> error_code e_seen = Inr (Some ''ResourceInUse'')) \<longrightarrow>
      creations (events (provision_cell n d create_outcome ns)) = [] \<and>
      raised (provision_cell n d create_outcome ns) = None \<and>
      jobs_submitted (events (ingestion_cell n job run_outcome wait_outcome
        (globals (provision_cell n d create_outcome ns)))) = [] \<and>
      raised (ingestion_cell n job run_outcome wait_outcome
        (globals (provision_cell n d create_outcome ns))) = None) \<and>
   (feature_group_exists ns' = Some True \<longrightarrow>
      jobs_submitted (events (ingestion_cell n job run_outcome wait_outcome ns')) = [])"
  by (auto simp add: provision_cell_def ingestion_cell_def creations_def jobs_submitted_def
       cell_defs Let_def error_code_Inr_is_Exception split: option.splits)

theorem provisioning_idempotent_witness:
  "creations (events (provision_cell ''ratings-features-music-rec''
      (Some (ClientError [(''Error'', [(''Code'', ''ResourceNotFound'')])])) None
      \<lparr>feature_group_exists = None\<rparr>)) = [''ratings-features-music-rec''] \<and>
   feature_group_exists (globals (provision_cell ''ratings-features-music-rec''
      (Some (ClientError [(''Error'', [(''Code'', ''ResourceInUse'')])])) None
      \<lparr>feature_group_exists = None\<rparr>)) = Some True \<and>
   creations (events (provision_cell ''ratings-features-music-rec'' None None
      \<lparr>feature_group_exists = None\<rparr>)) = [] \<and>
   jobs_submitted (events (ingestion_cell ''ratings-features-music-rec'' ''dw-flow-proc'' None
      (Inr ''Completed'')
      (globals (provision_cell ''ratings-features-music-rec'' None None
         \<lparr>feature_group_exists = None\<rparr>)))) = [] \<and>
   jobs_submitted (events (ingestion_cell ''ratings-features-music-rec'' ''dw-flow-proc'' None
      (Inr ''Completed'') \<lparr>feature_group_exists = Some True\<rparr>)) = []"
  using provisioning_idempotent
    [where e_nf = "ClientError [(''Error'', [(''Code'', ''ResourceNotFound'')])]"
       and e_iu = "ClientError [(''Error'', [(''Code'', ''ResourceInUse'')])]"
       and d = None and n = "''ratings-features-music-rec''" and create_outcome = None
       and ns = "\<lparr>feature_group_exists = None\<rparr>" and job = "''dw-flow-proc''"
       and run_outcome = None and wait_outcome = "Inr ''Completed''"
       and ns' = "\<lparr>feature_group_exists = Some True\<rparr>"]
  by simp

text \<open>
  C2. The claim: a service error whose code is not one of the expected ones aborts the
  stage and is shown to the user. The cells do otherwise. Evaluated at an
  \<open>AccessDeniedException\<close> from \<open>describe_feature_group\<close> and at a \<open>403\<close> from
  \<open>download_file\<close>: the handler matches no code and ends, the exception is dropped,
  nothing is printed, and the cell completes.
\<close>

theorem unexpected_errors_are_swallowed:
  "provision_cell ''ratings-features-music-rec''
     (Some (ClientError [(''Error'', [(''Code'', ''AccessDeniedException'')])])) None
     \<lparr>feature_group_exists = None\<rparr> =
     \<lparr>events = [DescribeFeatureGroup ''ratings-features-music-rec''], raised = None,
      globals = \<lparr>feature_group_exists = None\<rparr>\<rparr> \<and>
   explainability_cell ''bucket'' ''music-recommendation''
     (\<lambda>b k. Some (ClientError [(''Error'', [(''Code'', ''403'')])])) None
     \<lparr>feature_group_exists = None\<rparr> =
     \<lparr>events = [DownloadFile ''bucket''
         ''music-recommendation/clarify-output/explainability/explanations_shap/out.csv''
         ''data/shap_output.csv''],
      raised = None, globals = \<lparr>feature_group_exists = None\<rparr>\<rparr>"
  by (simp add: provision_cell_def explainability_cell_def shap_output_key_def cell_defs)

text \<open>
  C10. If the describe call raises an error whose code is neither \<open>ResourceNotFound\<close>
  nor \<open>ResourceInUse\<close>, the provisioning cell completes without assigning
  \<open>feature_group_exists\<close> (the kernel's variables are unchanged), and in a fresh kernel
  the ingestion cell then raises \<open>NameError\<close> before reaching either branch. When the
  describe call raises, the flag is bound afterwards exactly when the code is one of the two.
\<close>

theorem undefined_flag_on_unexpected_code:
  "(error_code e = Inr error \<and> error \<noteq> Some ''ResourceNotFound'' \<and>
    error \<noteq> Some ''ResourceInUse'' \<longrightarrow>
      raised (provision_cell n (Some e) create_outcome ns) = None \<and>
      globals (provision_cell n (Some e) create_outcome ns) = ns \<and>
      ingestion_cell n job run_outcome wait_outcome
        (globals (provision_cell n (Some e) create_outcome \<lparr>feature_group_exists = None\<rparr>)) =
        \<lparr>events = [], raised = Some (NameError ''feature_group_exists''),
         globals = \<lparr>feature_group_exists = None\<rparr>\<rparr>) \<and>
   (feature_group_exists
      (globals (provision_cell n (Some e') create_outcome \<lparr>feature_group_exists = None\<rparr>)) \<noteq> None
    \<longleftrightarrow> error_code e' = Inr (Some ''ResourceNotFound'') \<or>
        error_code e' = Inr (Some ''ResourceInUse''))"
  by (cases e; cases e')
     (auto simp add: provision_cell_def ingestion_cell_def cell_defs Let_def
       split: option.splits sum.splits)

theorem undefined_flag_on_unexpected_code_witness:
  "raised (provision_cell ''ratings-features-music-rec''
      (Some (ClientError [(''Error'', [(''Code'', ''ThrottlingException'')])])) None
      \<lparr>feature_group_exists = None\<rparr>) = None \<and>
   ingestion_cell ''ratings-features-music-rec'' ''dw-flow-proc'' None (Inr ''Completed'')
      (globals (provision_cell ''ratings-features-music-rec''
         (Some (ClientError [(''Error'', [(''Code'', ''ThrottlingException'')])])) None
         \<lparr>feature_group_exists = None\<rparr>)) =
      \<lparr>events = [], raised = Some (NameError ''feature_group_exists''),
       globals = \<lparr>feature_group_exists = None\<rparr>\<rparr> \<and>
   feature_group_exists (globals (provision_cell ''ratings-features-music-rec''
      (Some (ClientError [(''Error'', [(''Code'', ''ResourceNotFound'')])])) None
      \<lparr>feature_group_exists = None\<rparr>)) \<noteq> None"
  using undefined_flag_on_unexpected_code
    [where e = "ClientError [(''Error'', [(''Code'', ''ThrottlingException'')])]"
       and error = "Some ''ThrottlingException''"
       and e' = "ClientError [(''Error'', [(''Code'', ''ResourceNotFound'')])]"
       and n = "''ratings-features-music-rec''" and create_outcome = None
       and ns = "\<lparr>feature_group_exists = None\<rparr>" and job = "''dw-flow-proc''"
       and run_outcome = None and wait_outcome = "Inr ''Completed''"]
  by auto

subsection \<open>The wait loop\<close>

lemma wait_loop_terminal:
  "status \<noteq> Some ''Creating'' \<Longrightarrow> wait_loop name replies i status r = Some (status, r)"
  by (subst wait_loop.simps) simp

lemma wait_loop_creating:
  "replies i = Inr status' \<Longrightarrow>
   wait_loop name replies i (Some ''Creating'') r =
   wait_loop name replies (Suc i) status'
     (call (FeatureGroupDescribe name) None
        (emit (TimeSleep 5) (emit (Print ''Waiting for Feature Group Creation'') r)))"
  by (subst wait_loop.simps) simp

lemma wait_loop_returns:
  "(\<forall>j<d. replies (i + j) = Inr (Some ''Creating'')) \<Longrightarrow> replies (i + d) = Inr st \<Longrightarrow>
   st \<noteq> Some ''Creating'' \<Longrightarrow>
   \<exists>r'. wait_loop name replies i (Some ''Creating'') r = Some (st, r') \<and>
        sleeps (events r') = sleeps (events r) @ replicate (Suc d) 5 \<and>
        raised r' = None \<and> globals r' = globals r"
proof (induction d arbitrary: i r)
  case 0
  then show ?case
    by (simp add: wait_loop_creating wait_loop_terminal sleeps_def cell_defs)
next
  case (Suc d)
  let ?r1 = "call (FeatureGroupDescribe name) None
        (emit (TimeSleep 5) (emit (Print ''Waiting for Feature Group Creation'') r))"
  from Suc.prems(1) have here: "replies i = Inr (Some ''Creating'')"
    by (metis add.right_neutral zero_less_Suc)
  from Suc.prems(1) have rest: "\<forall>j<d. replies (Suc i + j) = Inr (Some ''Creating'')"
    by auto
  from Suc.prems(2) have last: "replies (Suc i + d) = Inr st"
    by simp
  from Suc.IH [OF rest last Suc.prems(3), of ?r1]
  obtain r' where r': "wait_loop name replies (Suc i) (Some ''Creating'') ?r1 = Some (st, r')"
      "sleeps (events r') = sleeps (events ?r1) @ replicate (Suc d) 5"
      "raised r' = None" "globals r' = globals ?r1"
    by blast
  have "sleeps (events ?r1) = sleeps (events r) @ [5]"
    by (simp add: sleeps_def cell_defs)
  with r' here show ?case
    by (simp add: wait_loop_creating cell_defs replicate_app_Cons_same)
qed

lemma wait_loop_Some_not_creating:
  assumes "wait_loop name replies i status r = Some y"
  shows "(\<forall>j. replies j = Inr (Some ''Creating'')) \<longrightarrow> status \<noteq> Some ''Creating''"
proof (rule wait_loop.raw_induct
        [where P = "\<lambda>name replies i status r y.
           (\<forall>j. replies j = Inr (Some ''Creating'')) \<longrightarrow> status \<noteq> Some ''Creating''",
         OF _ assms], goal_cases)
  case (1 f name replies i status r y)
  show ?case
  proof (intro impI notI)
    assume all: "\<forall>j. replies j = Inr (Some ''Creating'')" and st: "status = Some ''Creating''"
    from all have "replies i = Inr (Some ''Creating'')" by simp
    with 1(2) st have "\<exists>r'. f name replies (Suc i) (Some ''Creating'') r' = Some y"
      by auto
    then obtain r' where "f name replies (Suc i) (Some ''Creating'') r' = Some y" ..
    from 1(1) [OF this] all show False by simp
  qed
qed

lemma wait_loop_diverges:
  "\<forall>j. replies j = Inr (Some ''Creating'') \<Longrightarrow>
   wait_loop name replies i (Some ''Creating'') r = None"
  using wait_loop_Some_not_creating [of name replies i "Some ''Creating''" r]
  by (cases "wait_loop name replies i (Some ''Creating'') r") auto

text \<open>
  C6. The wait loop sleeps 5 seconds between two polls, every time, and goes on for as long
  as the status is \<open>Creating\<close>: if the first \<open>k\<close> answers are \<open>Creating\<close> and the
  next one is another status, the function returns after exactly \<open>k\<close> sleeps of 5, for
  any \<open>k\<close>. It then returns normally exactly when that status is \<open>Created\<close>, and
  raises \<open>SystemExit\<close> for any other. If every answer is \<open>Creating\<close> it never returns.
\<close>

theorem wait_polls_until_terminal_status:
  "((\<forall>j<k. replies j = Inr (Some ''Creating'')) \<and> replies k = Inr st \<and> st \<noteq> Some ''Creating'' \<longrightarrow>
      (\<exists>r. wait_for_feature_group_creation_complete name replies ns = Some r \<and>
           sleeps (events r) = replicate k 5 \<and>
           (raised r = None \<longleftrightarrow> st = Some ''Created'') \<and>
           (st \<noteq> Some ''Created'' \<longrightarrow>
              raised r = Some (SystemExit
                (''Failed to create feature group '' @ name @ '': '' @ str_status st))))) \<and>
   ((\<forall>j. replies' j = Inr (Some ''Creating'')) \<longrightarrow>
      wait_for_feature_group_creation_complete name replies' ns = None)"
proof (intro conjI impI)
  assume h: "(\<forall>j<k. replies j = Inr (Some ''Creating'')) \<and> replies k = Inr st \<and>
             st \<noteq> Some ''Creating''"
  let ?r0 = "call (FeatureGroupDescribe name) None (start ns)"
  let ?goal = "\<exists>r. wait_for_feature_group_creation_complete name replies ns = Some r \<and>
           sleeps (events r) = replicate k 5 \<and>
           (raised r = None \<longleftrightarrow> st = Some ''Created'') \<and>
           (st \<noteq> Some ''Created'' \<longrightarrow>
              raised r = Some (SystemExit
                (''Failed to create feature group '' @ name @ '': '' @ str_status st)))"
  show ?goal
  proof (cases k)
    case 0
    with h have "replies 0 = Inr st" by simp
    moreover from h have "wait_loop name replies 1 st ?r0 = Some (st, ?r0)"
      by (simp add: wait_loop_terminal)
    ultimately show ?thesis using 0
      by (simp add: wait_for_feature_group_creation_complete_def sleeps_def cell_defs)
  next
    case (Suc d)
    with h have first: "replies 0 = Inr (Some ''Creating'')" by simp
    from h Suc have "\<forall>j<d. replies (1 + j) = Inr (Some ''Creating'')" by simp
    moreover from h Suc have "replies (1 + d) = Inr st" by simp
    moreover from h have "st \<noteq> Some ''Creating''" by simp
    ultimately obtain r' where r':
        "wait_loop name replies 1 (Some ''Creating'') ?r0 = Some (st, r')"
        "sleeps (events r') = sleeps (events ?r0) @ replicate (Suc d) 5"
        "raised r' = None"
      using wait_loop_returns [of d replies 1 st name ?r0] by blast
    have "sleeps (events ?r0) = []"
      by (simp add: sleeps_def cell_defs)
    with r' first Suc show ?thesis
      by (simp add: wait_for_feature_group_creation_complete_def sleeps_def cell_defs)
  qed
next
  assume "\<forall>j. replies' j = Inr (Some ''Creating'')"
  then show "wait_for_feature_group_creation_complete name replies' ns = None"
    by (simp add: wait_for_feature_group_creation_complete_def wait_loop_diverges)
qed

theorem wait_polls_until_terminal_status_witness:
  "(\<exists>r. wait_for_feature_group_creation_complete ''ratings-features-music-rec''
          (\<lambda>i. if i < 2 then Inr (Some ''Creating'') else Inr (Some ''Created''))
          \<lparr>feature_group_exists = Some False\<rparr> = Some r \<and>
        sleeps (events r) = replicate 2 5 \<and> raised r = None) \<and>
   (\<exists>r. wait_for_feature_group_creation_complete ''ratings-features-music-rec''
          (\<lambda>i. if i < 1 then Inr (Some ''Creating'') else Inr (Some ''CreateFailed''))
          \<lparr>feature_group_exists = Some False\<rparr> = Some r \<and>
        raised r = Some (SystemExit
          ''Failed to create feature group ratings-features-music-rec: CreateFailed'')) \<and>
   wait_for_feature_group_creation_complete ''ratings-features-music-rec''
     (\<lambda>i. Inr (Some ''Creating'')) \<lparr>feature_group_exists = Some False\<rparr> = None"
  using wait_polls_until_terminal_status
    [where replies = "\<lambda>i. if i < 2 then Inr (Some ''Creating'') else Inr (Some ''Created'')"
       and k = 2 and st = "Some ''Created''" and replies' = "\<lambda>i. Inr (Some ''Creating'')"
       and name = "''ratings-features-music-rec''" and ns = "\<lparr>feature_group_exists = Some False\<rparr>"]
    wait_polls_until_terminal_status
    [where replies = "\<lambda>i. if i < 1 then Inr (Some ''Creating'') else Inr (Some ''CreateFailed'')"
       and k = 1 and st = "Some ''CreateFailed''" and replies' = "\<lambda>i. Inr (Some ''Creating'')"
       and name = "''ratings-features-music-rec''" and ns = "\<lparr>feature_group_exists = Some False\<rparr>"]
  by (auto simp add: str_status_def)

section \<open>Properties of the deployment and inference notebook\<close>

text \<open>
  C7. If the listing of in-service endpoints is not empty, the cell reports the first one
  as the endpoint in use and makes no \<open>deploy\<close> call; a \<open>deploy\<close> call is made only
  when the listing is empty, and then it is one call, for \<open>endpoint_name\<close>.
\<close>

theorem deploy_reuses_in_service_endpoint:
  "(Endpoints \<noteq> [] \<longrightarrow>
      deployments (events (deploy_cell model_name Endpoints deploy_outcome ns)) = [] \<and>
      prints (events (deploy_cell model_name Endpoints deploy_outcome ns)) =
        [''Using existing endpoint: '' @ EndpointName (hd Endpoints)] \<and>
      raised (deploy_cell model_name Endpoints deploy_outcome ns) = None) \<and>
   (deployments (events (deploy_cell model_name Endpoints' deploy_outcome ns)) \<noteq> [] \<longrightarrow>
      Endpoints' = []) \<and>
   deployments (events (deploy_cell model_name [] deploy_outcome ns)) =
        [(model_name, endpoint_name model_name)]"
  by (cases Endpoints; cases Endpoints')
     (simp_all add: deploy_cell_def deployments_def prints_def cell_defs)

theorem deploy_reuses_in_service_endpoint_witness:
  "deployments (events (deploy_cell ''music-rec-model''
      [\<lparr>EndpointName = ''music-rec-model-endpoint-notebooks'', EndpointStatus = ''InService''\<rparr>]
      None \<lparr>feature_group_exists = None\<rparr>)) = [] \<and>
   prints (events (deploy_cell ''music-rec-model''
      [\<lparr>EndpointName = ''music-rec-model-endpoint-notebooks'', EndpointStatus = ''InService''\<rparr>]
      None \<lparr>feature_group_exists = None\<rparr>)) =
      [''Using existing endpoint: music-rec-model-endpoint-notebooks''] \<and>
   deployments (events (deploy_cell ''music-rec-model'' [] None \<lparr>feature_group_exists = None\<rparr>)) =
      [(''music-rec-model'', ''music-rec-model-endpoint-notebooks'')]"
  using deploy_reuses_in_service_endpoint
    [where Endpoints = "[\<lparr>EndpointName = ''music-rec-model-endpoint-notebooks'',
                          EndpointStatus = ''InService''\<rparr>]"
       and Endpoints' = "[]" and model_name = "''music-rec-model''" and deploy_outcome = None
       and ns = "\<lparr>feature_group_exists = None\<rparr>"]
  by (simp add: endpoint_name_def)

text \<open>
  C3. The explainability cell submits at most one job. The object it looks for lies under
  the job's own output path. If the download returns, no job is submitted; if it fails
  with the code \<open>404\<close>, exactly one job is submitted, writing to that output path.
\<close>

theorem explainability_at_most_one_job:
  "length (explainability_jobs
      (events (explainability_cell bucket prefix download_file run_outcome ns))) \<le> 1 \<and>
   ''s3://'' @ bucket @ ''/'' @ shap_output_key prefix =
      explainability_output_path bucket prefix @ ''/explanations_shap/out.csv'' \<and>
   (download_file bucket (shap_output_key prefix) = None \<longrightarrow>
      explainability_jobs
        (events (explainability_cell bucket prefix download_file run_outcome ns)) = [] \<and>
      raised (explainability_cell bucket prefix download_file run_outcome ns) = None) \<and>
   (download_file' bucket (shap_output_key prefix) = Some e \<and> error_code e = Inr (Some ''404'') \<longrightarrow>
      explainability_jobs
        (events (explainability_cell bucket prefix download_file' run_outcome ns)) =
        [(pred_data_uri bucket prefix, explainability_output_path bucket prefix)])"
  by (cases e)
     (auto simp add: explainability_cell_def explainability_jobs_def cell_defs Let_def
       shap_output_key_def explainability_output_path_def
       split: option.splits sum.splits)

theorem explainability_at_most_one_job_witness:
  "explainability_jobs (events (explainability_cell ''bucket'' ''music-recommendation''
      (\<lambda>b k. None) None \<lparr>feature_group_exists = None\<rparr>)) = [] \<and>
   explainability_jobs (events (explainability_cell ''bucket'' ''music-recommendation''
      (\<lambda>b k. Some (ClientError [(''Error'', [(''Code'', ''404'')])])) None
      \<lparr>feature_group_exists = None\<rparr>)) =
      [(''s3://bucket/music-recommendation/data/pred/prediction_data.csv'',
        ''s3://bucket/music-recommendation/clarify-output/explainability'')]"
  using explainability_at_most_one_job
    [where download_file = "\<lambda>b k. None"
       and download_file' = "\<lambda>b k. Some (ClientError [(''Error'', [(''Code'', ''404'')])])"
       and e = "ClientError [(''Error'', [(''Code'', ''404'')])]"
       and bucket = "''bucket''" and prefix = "''music-recommendation''" and run_outcome = None
       and ns = "\<lparr>feature_group_exists = None\<rparr>"]
  by (simp add: pred_data_uri_def explainability_output_path_def)

subsection \<open>The inference frame\<close>

lemma positions_snoc:
  "positions n (cols @ [c]) = positions n cols @ (if c = n then [length cols] else [])"
proof -
  have "filter (\<lambda>i. (cols @ [c]) ! i = n) [0..<length cols] =
        filter (\<lambda>i. cols ! i = n) [0..<length cols]"
    by (rule filter_cong) (simp_all add: nth_append)
  then show ?thesis by (simp add: positions_def)
qed

lemma length_positions: "length (positions n cols) = count_list cols n"
proof (induction cols rule: rev_induct)
  case Nil
  show ?case by (simp add: positions_def)
next
  case (snoc c cols)
  then show ?case by (simp add: positions_snoc)
qed

lemma positions_label: "i \<in> set (positions n cols) \<Longrightarrow> cols ! i = n"
  by (simp add: positions_def)

lemma positions_unique:
  assumes "count_list cols n = 1"
  obtains i where "positions n cols = [i]" and "cols ! i = n"
proof -
  from assms have "length (positions n cols) = 1"
    by (simp add: length_positions)
  then obtain i where i: "positions n cols = [i]"
    by (cases "positions n cols") auto
  then have "cols ! i = n"
    using positions_label [of i n cols] by simp
  with i that show ?thesis by blast
qed

lemma select_unique_columns:
  assumes "\<forall>n\<in>set names. count_list (columns df) n = 1"
  shows "\<exists>out. select_columns df names = Inr out \<and> columns out = names \<and>
           length (rows out) = length (rows df) \<and> rectangular out"
proof -
  have present: "filter (\<lambda>n. n \<notin> set (columns df)) names = []"
  proof -
    have "n \<in> set (columns df)" if "n \<in> set names" for n
      using assms that count_notin [of n "columns df"] by fastforce
    then show ?thesis by (simp add: filter_empty_conv)
  qed
  have one: "map f (positions n (columns df)) = [f (hd (positions n (columns df)))]"
    if "n \<in> set names" for n and f :: "nat \<Rightarrow> 'b"
  proof -
    from assms that have "count_list (columns df) n = 1" by blast
    then obtain i where "positions n (columns df) = [i]"
      by (rule positions_unique)
    then show ?thesis by simp
  qed
  have label: "columns df ! hd (positions n (columns df)) = n" if "n \<in> set names" for n
  proof -
    from assms that have "count_list (columns df) n = 1" by blast
    then obtain i where "positions n (columns df) = [i]" "columns df ! i = n"
      by (rule positions_unique)
    then show ?thesis by simp
  qed
  have cols: "concat (map (\<lambda>n. map (\<lambda>i. columns df ! i) (positions n (columns df))) names) = names"
  proof -
    have "map (\<lambda>n. map (\<lambda>i. columns df ! i) (positions n (columns df))) names =
          map (\<lambda>n. [n]) names"
      by (rule map_cong) (simp_all add: one label)
    then show ?thesis by (simp only: concat_map_singleton map_ident)
  qed
  have row: "length (concat (map (\<lambda>n. map (\<lambda>i. r ! i) (positions n (columns df))) names)) =
             length names" for r :: "'a list"
  proof -
    have "map (\<lambda>n. map (\<lambda>i. r ! i) (positions n (columns df))) names =
          map (\<lambda>n. [r ! hd (positions n (columns df))]) names"
      by (rule map_cong) (simp_all add: one)
    then show ?thesis by (simp only: concat_map_singleton length_map)
  qed
  show ?thesis
    using present cols row
    by (simp add: select_columns_def rectangular_def list_all_iff)
qed

lemma select_missing_column:
  assumes "n \<in> set names" and "n \<notin> set (columns df)"
  shows "\<exists>m. select_columns df names = Inl (KeyError m)"
proof -
  from assms have "filter (\<lambda>n. n \<notin> set (columns df)) names \<noteq> []"
    by (auto simp add: filter_empty_conv)
  then show ?thesis
    by (cases "filter (\<lambda>n. n \<notin> set (columns df)) names") (simp_all add: select_columns_def)
qed

text \<open>
  C4, as amended. For a tracks frame of N rows and a non-empty user record: if every
  name of \<open>feature_names\<close> labels exactly one column of the joined, lower-cased frame,
  the inference frame has exactly N rows and its columns are exactly \<open>feature_names\<close>,
  in that order, one cell per column in every row. If some name labels no column, the
  reprojection raises \<open>KeyError\<close>.
\<close>

theorem inference_frame_shape:
  "(user_record \<noteq> [] \<and> (\<forall>n\<in>set feature_names. count_list (data_columns df_tracks user_record) n = 1) \<longrightarrow>
      (\<exists>df. inference_df df_tracks user_record feature_names = Inr df \<and>
            length (rows df) = length (rows df_tracks) \<and>
            columns df = feature_names \<and> rectangular df)) \<and>
   (user_record' \<noteq> [] \<and> (\<exists>n\<in>set feature_names'. n \<notin> set (data_columns df_tracks user_record')) \<longrightarrow>
      (\<exists>m. inference_df df_tracks user_record' feature_names' = Inl (KeyError m)))"
proof (intro conjI impI)
  assume h: "user_record \<noteq> [] \<and> (\<forall>n\<in>set feature_names. count_list (data_columns df_tracks user_record) n = 1)"
  let ?user = "\<lparr>columns = map fst user_record, rows = [map snd user_record]\<rparr> :: 'a dataframe"
  let ?data = "(merge_cross df_tracks ?user)\<lparr>columns := map lower (columns (merge_cross df_tracks ?user))\<rparr>"
  from h have "\<forall>n\<in>set feature_names. count_list (columns ?data) n = 1"
    by (simp add: data_columns_def)
  from select_unique_columns [OF this]
  obtain out where out: "select_columns ?data feature_names = Inr out" "columns out = feature_names"
      "length (rows out) = length (rows ?data)" "rectangular out"
    by blast
  have "length (rows ?data) = length (rows df_tracks)"
    by (simp add: merge_cross_def length_concat comp_def)
  with out h show "\<exists>df. inference_df df_tracks user_record feature_names = Inr df \<and>
            length (rows df) = length (rows df_tracks) \<and>
            columns df = feature_names \<and> rectangular df"
    by (simp add: inference_df_def user_frame_def Let_def)
next
  assume h: "user_record' \<noteq> [] \<and> (\<exists>n\<in>set feature_names'. n \<notin> set (data_columns df_tracks user_record'))"
  let ?user = "\<lparr>columns = map fst user_record', rows = [map snd user_record']\<rparr> :: 'a dataframe"
  let ?data = "(merge_cross df_tracks ?user)\<lparr>columns := map lower (columns (merge_cross df_tracks ?user))\<rparr>"
  from h obtain n where "n \<in> set feature_names'" "n \<notin> set (columns ?data)"
    by (auto simp add: data_columns_def)
  from select_missing_column [OF this] h
  show "\<exists>m. inference_df df_tracks user_record' feature_names' = Inl (KeyError m)"
    by (simp add: inference_df_def user_frame_def Let_def)
qed

theorem inference_frame_shape_witness:
  "(\<exists>df. inference_df \<lparr>columns = [''trackId'', ''Energy''], rows = [[1::int, 5], [2, 6]]\<rparr>
           [(''userId'', 7), (''energy_5star'', 9)] [''energy'', ''userid''] = Inr df \<and>
         length (rows df) = 2 \<and> columns df = [''energy'', ''userid''] \<and> rectangular df) \<and>
   (\<exists>m. inference_df \<lparr>columns = [''trackId'', ''Energy''], rows = [[1::int, 5], [2, 6]]\<rparr>
           [(''userId'', 7)] [''danceability''] = Inl (KeyError m))"
proof -
  have cols: "data_columns \<lparr>columns = [''trackId'', ''Energy''], rows = [[1::int, 5], [2, 6]]\<rparr>
                [(''userId'', 7), (''energy_5star'', 9)] =
              [''trackid'', ''energy'', ''userid'', ''energy_5star'']"
    by code_simp
  have cols': "data_columns \<lparr>columns = [''trackId'', ''Energy''], rows = [[1::int, 5], [2, 6]]\<rparr>
                [(''userId'', 7)] = [''trackid'', ''energy'', ''userid'']"
    by code_simp
  show ?thesis
    using inference_frame_shape
      [where df_tracks = "\<lparr>columns = [''trackId'', ''Energy''], rows = [[1::int, 5], [2, 6]]\<rparr>"
         and user_record = "[(''userId'', 7), (''energy_5star'', 9)]"
         and feature_names = "[''energy'', ''userid'']"
         and user_record' = "[(''userId'', 7)]" and feature_names' = "[''danceability'']"]
    by (auto simp add: cols cols')
qed

text \<open>
  C4 as stated ("for every tracks dataframe and every entity record") fails: with a
  feature name that the joined frame does not have, no inference frame is produced.
\<close>

theorem inference_frame_missing_feature:
  "inference_df \<lparr>columns = [''trackId''], rows = [[1::int], [2]]\<rparr> [(''userId'', 7)] [''danceability'']
     = Inl (KeyError ''danceability'')"
  by (simp add: inference_df_def user_frame_def merge_cross_def select_columns_def lower_def)

subsection \<open>Ranking\<close>

lemma map_nth_filter:
  "map (\<lambda>j. xs ! j) (filter (\<lambda>j. P (xs ! j)) [0..<length xs]) = filter P xs"
proof -
  have "filter P (map (\<lambda>j. xs ! j) [0..<length xs]) =
        map (\<lambda>j. xs ! j) (filter (P \<circ> (\<lambda>j. xs ! j)) [0..<length xs])"
    by (rule filter_map)
  then show ?thesis by (simp add: map_nth comp_def)
qed

lemma filter_not_None:
  "filter (\<lambda>x. x \<noteq> None) items =
   map Some (concat (map (\<lambda>x. case x of None \<Rightarrow> [] | Some v \<Rightarrow> [v]) items))"
  by (induction items) (auto split: option.splits)

lemma filter_None: "filter (\<lambda>x. x = None) items = replicate (length (filter (\<lambda>x. x = None) items)) None"
  by (induction items) auto

lemma stable_argsort_ok: "argsort_ok stable_argsort ks"
proof -
  let ?zs = "zip ks [0..<length ks]"
  have perm: "mset (stable_argsort ks) = mset [0..<length ks]"
  proof -
    have "mset (map snd (sort_key fst ?zs)) = mset (map snd ?zs)"
      by (simp only: mset_map mset_sort)
    also have "map snd ?zs = [0..<length ks]"
      by (rule map_snd_zip) simp
    finally show ?thesis by (simp add: stable_argsort_def)
  qed
  have pair: "ks ! snd z = fst z" if "z \<in> set ?zs" for z
    using that by (auto simp add: set_zip)
  have "map (\<lambda>j. ks ! j) (map snd (sort_key fst ?zs)) = map fst (sort_key fst ?zs)"
    unfolding map_map by (rule map_cong) (simp_all add: pair)
  then have "map (\<lambda>j. ks ! j) (stable_argsort ks) = map fst (sort_key fst ?zs)"
    by (simp add: stable_argsort_def)
  then show ?thesis
    using perm by (simp add: argsort_ok_def sorted_sort_key)
qed


lemma mset_filter_split: "mset (filter P xs) + mset (filter (\<lambda>x. \<not> P x) xs) = mset xs"
  by (induction xs) simp_all

lemma sorted_desc_na_last:
  assumes "sorted_wrt (\<lambda>a b. b \<le> a) vs"
  shows "sorted_wrt desc_na_last (map Some vs @ replicate m None)"
proof -
  have "sorted_wrt desc_na_last (replicate m None :: 'a option list)"
    by (induction m) simp_all
  moreover from assms have "sorted_wrt desc_na_last (map Some vs)"
    by (simp add: sorted_wrt_map)
  ultimately show ?thesis
    by (simp add: sorted_wrt_append)
qed

lemma nargsort_desc_sorts:
  assumes ok: "argsort_ok argsort
                 (rev (concat (map (\<lambda>x. case x of None \<Rightarrow> [] | Some v \<Rightarrow> [v]) items)))"
  shows "mset (nargsort_desc argsort items) = mset [0..<length items]"
    and "\<exists>vs m. map (\<lambda>j. items ! j) (nargsort_desc argsort items) = map Some vs @ replicate m None \<and>
               sorted_wrt (\<lambda>a b. b \<le> a) vs \<and>
               m = length (filter (\<lambda>x. x = None) items)"
proof -
  let ?idx = "[0..<length items]"
  let ?nn = "rev (concat (map (\<lambda>x. case x of None \<Rightarrow> [] | Some v \<Rightarrow> [v]) items))"
  let ?nni = "rev (filter (\<lambda>j. items ! j \<noteq> None) ?idx)"
  let ?nan = "filter (\<lambda>j. items ! j = None) ?idx"
  let ?sorted = "map (\<lambda>j. ?nn ! j) (argsort ?nn)"
  have unfold: "nargsort_desc argsort items = rev (map (\<lambda>j. ?nni ! j) (argsort ?nn)) @ ?nan"
    by (simp add: nargsort_desc_def Let_def)
  have "map (\<lambda>j. items ! j) (filter (\<lambda>j. items ! j \<noteq> None) ?idx) =
        filter (\<lambda>x. x \<noteq> None) items"
    by (rule map_nth_filter [of items "\<lambda>x. x \<noteq> None"])
  also have "\<dots> = map Some (rev ?nn)"
    by (simp only: filter_not_None rev_rev_ident)
  finally have vals: "map (\<lambda>j. items ! j) ?nni = map Some ?nn"
    by (metis rev_map rev_rev_ident)
  then have len: "length ?nni = length ?nn"
    by (metis length_map)
  from ok have perm: "mset (argsort ?nn) = mset [0..<length ?nn]"
    and srt: "sorted ?sorted"
    by (simp_all add: argsort_ok_def)
  from perm have "set (argsort ?nn) = set [0..<length ?nn]"
    by (rule mset_eq_setD)
  then have range: "j < length ?nn" if "j \<in> set (argsort ?nn)" for j
    using that by simp
  have "mset (map (\<lambda>j. ?nni ! j) (argsort ?nn)) = image_mset (\<lambda>j. ?nni ! j) (mset (argsort ?nn))"
    by simp
  also have "\<dots> = mset (map (\<lambda>j. ?nni ! j) [0..<length ?nni])"
    by (simp only: perm len mset_map)
  also have "\<dots> = mset ?nni"
    by (simp only: map_nth)
  finally have "mset (nargsort_desc argsort items) = mset ?nni + mset ?nan"
    by (simp add: unfold)
  also have "\<dots> = mset ?idx"
    using mset_filter_split [of "\<lambda>j. items ! j \<noteq> None" ?idx]
    by (simp only: mset_rev not_not)
  finally show "mset (nargsort_desc argsort items) = mset [0..<length items]" .
  have "map (\<lambda>j. items ! (?nni ! j)) (argsort ?nn) = map (\<lambda>j. Some (?nn ! j)) (argsort ?nn)"
  proof (rule map_cong [OF refl])
    fix j assume "j \<in> set (argsort ?nn)"
    then have j: "j < length ?nn" by (rule range)
    with len have "items ! (?nni ! j) = map (\<lambda>j. items ! j) ?nni ! j"
      by (simp only: nth_map)
    also have "\<dots> = Some (?nn ! j)"
      using j by (simp only: vals nth_map)
    finally show "items ! (?nni ! j) = Some (?nn ! j)" .
  qed
  then have "map (\<lambda>j. items ! j) (rev (map (\<lambda>j. ?nni ! j) (argsort ?nn))) = map Some (rev ?sorted)"
    by (simp add: rev_map comp_def)
  moreover have "map (\<lambda>j. items ! j) ?nan = replicate (length (filter (\<lambda>x. x = None) items)) None"
    using map_nth_filter [of items "\<lambda>x. x = None"] filter_None [of items] by simp
  moreover from srt have "sorted_wrt (\<lambda>a b. b \<le> a) (rev ?sorted)"
    by (simp add: sorted_wrt_rev)
  ultimately show "\<exists>vs m. map (\<lambda>j. items ! j) (nargsort_desc argsort items) =
                     map Some vs @ replicate m None \<and>
               sorted_wrt (\<lambda>a b. b \<le> a) vs \<and>
               m = length (filter (\<lambda>x. x = None) items)"
    by (simp add: unfold)
qed

text \<open>
  C5. For a frame of N rows with one column labelled \<open>rating\<close> and a playlist length K,
  and whatever order the sorting routine gives to equal scores: the playlist has
  \<open>min K N\<close> rows; its rows and the rows left out are together the rows of the frame,
  each as often as it occurs there; the scores of the playlist are in descending order
  (a missing score comes after every number); and no row left out has a score above that
  of a row in the playlist, so the playlist is the K best-rated rows. When every row has
  a number as its score, the scores of the playlist are numbers in descending order.
\<close>

theorem playlist_sorted_top_k:
  assumes ok: "\<forall>ks. argsort_ok argsort ks"
    and rating: "positions ''rating'' (columns df) = [i]"
  shows "\<exists>p rest. playlist argsort (int K) df = Inr p \<and> columns p = columns df \<and>
           length (rows p) = min K (length (rows df)) \<and>
           mset (rows p) + mset rest = mset (rows df) \<and>
           sorted_wrt desc_na_last (map (\<lambda>r. r ! i) (rows p)) \<and>
           (\<forall>a\<in>set (rows p). \<forall>b\<in>set rest. desc_na_last (a ! i) (b ! i)) \<and>
           ((\<forall>r\<in>set (rows df). r ! i \<noteq> None) \<longrightarrow>
              (\<exists>vs. map (\<lambda>r. r ! i) (rows p) = map Some vs \<and> sorted_wrt (\<lambda>a b. b \<le> a) vs))"
proof -
  let ?items = "map (\<lambda>r. r ! i) (rows df)"
  let ?indexer = "nargsort_desc argsort ?items"
  let ?rows' = "map (\<lambda>j. rows df ! j) ?indexer"
  from ok have ok': "argsort_ok argsort
      (rev (concat (map (\<lambda>x. case x of None \<Rightarrow> [] | Some v \<Rightarrow> [v]) ?items)))"
    by blast
  from nargsort_desc_sorts [OF ok']
  obtain vs m where perm: "mset ?indexer = mset [0..<length (rows df)]"
    and keys: "map (\<lambda>j. ?items ! j) ?indexer = map Some vs @ replicate m None"
    and vs: "sorted_wrt (\<lambda>a b. b \<le> a) vs"
    and m: "m = length (filter (\<lambda>x. x = None) ?items)"
    by auto
  from perm have "set ?indexer = set [0..<length (rows df)]"
    by (rule mset_eq_setD)
  then have range: "j < length (rows df)" if "j \<in> set ?indexer" for j
    using that by simp
  have "mset ?rows' = image_mset (\<lambda>j. rows df ! j) (mset ?indexer)"
    by simp
  also have "\<dots> = mset (map (\<lambda>j. rows df ! j) [0..<length (rows df)])"
    by (simp only: perm mset_map)
  also have "\<dots> = mset (rows df)"
    by (simp only: map_nth)
  finally have all_rows: "mset ?rows' = mset (rows df)" .
  have "map (\<lambda>r. r ! i) ?rows' = map (\<lambda>j. ?items ! j) ?indexer"
    unfolding map_map by (rule map_cong) (simp_all add: range)
  with keys have keys': "map (\<lambda>r. r ! i) ?rows' = map Some vs @ replicate m None"
    by simp
  with vs have "sorted_wrt desc_na_last (map (\<lambda>r. r ! i) ?rows')"
    by (simp add: sorted_desc_na_last)
  then have "sorted_wrt desc_na_last (map (\<lambda>r. r ! i) (take K ?rows' @ drop K ?rows'))"
    by simp
  then have top: "sorted_wrt desc_na_last (map (\<lambda>r. r ! i) (take K ?rows'))"
    and cut: "\<forall>a\<in>set (take K ?rows'). \<forall>b\<in>set (drop K ?rows'). desc_na_last (a ! i) (b ! i)"
    unfolding map_append sorted_wrt_append by auto
  have split: "mset (take K ?rows') + mset (drop K ?rows') = mset (rows df)"
    using all_rows by (metis append_take_drop_id mset_append)
  have len: "length (take K ?rows') = min K (length (rows df))"
    using all_rows by (metis length_take min.commute size_mset)
  have numbers: "\<exists>ws. map (\<lambda>r. r ! i) (take K ?rows') = map Some ws \<and> sorted_wrt (\<lambda>a b. b \<le> a) ws"
    if "\<forall>r\<in>set (rows df). r ! i \<noteq> None"
  proof -
    from that have "filter (\<lambda>x. x = None) ?items = []"
      by (auto simp add: filter_empty_conv)
    with m keys' have "map (\<lambda>r. r ! i) ?rows' = map Some vs" by simp
    then have "map (\<lambda>r. r ! i) (take K ?rows') = map Some (take K vs)"
      by (metis take_map)
    moreover from vs have "sorted_wrt (\<lambda>a b. b \<le> a) (take K vs)"
      by (rule sorted_wrt_take)
    ultimately show ?thesis by blast
  qed
  have run: "playlist argsort (int K) df = Inr (df\<lparr>rows := take K ?rows'\<rparr>)"
    using rating by (simp add: playlist_def sort_values_desc_def head_def)
  show ?thesis
    using run len split top cut numbers
    by (intro exI [of _ "df\<lparr>rows := take K ?rows'\<rparr>"] exI [of _ "drop K ?rows'"]) simp
qed

theorem playlist_sorted_top_k_witness:
  "\<exists>p rest. playlist stable_argsort 2
       \<lparr>columns = [''rating'', ''trackid''],
        rows = [[Some (1::int), Some 5], [Some 3, Some 6], [None, Some 8], [Some 2, Some 7]]\<rparr> = Inr p \<and>
     length (rows p) = 2 \<and>
     sorted_wrt desc_na_last (map (\<lambda>r. r ! 0) (rows p))"
proof -
  let ?df = "\<lparr>columns = [''rating'', ''trackid''],
        rows = [[Some (1::int), Some 5], [Some 3, Some 6], [None, Some 8], [Some 2, Some 7]]\<rparr>"
  have ok: "\<forall>ks :: int list. argsort_ok stable_argsort ks"
    by (simp add: stable_argsort_ok)
  have rating: "positions ''rating'' (columns ?df) = [0]"
    by (simp add: positions_def upt_rec)
  from playlist_sorted_top_k [OF ok rating, of 2] show ?thesis
    by auto
qed

section \<open>Properties of the training job configuration\<close>

text \<open>
  C9. With 16 partitions, 4 instances and 8 processes per host, the job has
  \<open>4 * 8 = 32\<close> accelerators, the data-parallel degree left is 2, and
  partitions times replicas is the accelerator count.
\<close>

theorem training_partitions_times_replicas:
  "partitions smdistributed = 16 \<and> instance_count = 4 \<and> process_per_host = 8 \<and>
   total_accelerators = 32 \<and> data_parallel_degree = 2 \<and>
   partitions smdistributed * data_parallel_degree = total_accelerators"
  by (simp add: smdistributed_def hyperparameters_def pipeline_parallel_degree_def
      instance_count_def process_per_host_def total_accelerators_def data_parallel_degree_def)

end
